theory Spec2Isabelle
  imports Complex_Main "HOL-Library.List_Lexorder" "HOL-Library.Char_ord"
begin

section \<open>AutoDPD: the dependency and version analysis of \<open>autodpd.py\<close>\<close>

text \<open>
  The class \<open>autodpd\<close> walks a directory, parses every script and notebook, collects the
  top-level import names and the version thresholds of the syntax it finds, classifies the
  names and builds an environment description. The library calls it makes (reading a file,
  \<open>ast.parse\<close> with \<open>ast.walk\<close>, \<open>json.load\<close>, \<open>importlib.util.find_spec\<close>,
  \<open>sys.stdlib_module_names\<close>, \<open>distributions()\<close>, \<open>Path.rglob\<close>, \<open>str.lower\<close>) are the
  fields of a record \<open>runtime\<close>; everything the class itself computes is a definition
  below.

  Exceptions are values: a function that can raise returns \<open>py_exn + result\<close>. What the
  code prints is returned beside the result as a list of effects.
\<close>

subsection \<open>Data\<close>

datatype py_exn =
  SyntaxError | JSONDecodeError | KeyError | TypeError | ValueError
  | UnicodeDecodeError | OSError | AttributeError

datatype effect = Print string | WriteFile string string

text \<open>
  The nodes that \<open>ast.walk\<close> yields, as far as the \<open>isinstance\<close> tests of the code look
  at them: an \<open>Import\<close> carries the dotted names of its aliases, an \<open>ImportFrom\<close> its
  \<open>module\<close> (\<open>None\<close> for \<open>from . import x\<close>), a \<open>ClassDef\<close> its decorator list, a
  \<open>BinOp\<close> its operands and operator.
\<close>

datatype expr = Name string | Dict | OtherExpr

datatype operator = BitOr | OtherOp

datatype node =
  Import "string list"
  | ImportFrom "string option"
  | AnnAssign
  | JoinedStr
  | ClassDef "expr list"
  | NamedExpr
  | BinOp expr operator expr
  | Match
  | OtherNode

text \<open>The values \<open>json.load\<close> returns; an object is the association list of its dict.\<close>

datatype json =
  JNull | JBool bool | JNum real | JStr string | JArr "json list"
  | JObj "(string \<times> json) list"

record module_spec =
  origin :: "string option"

type_synonym path = string

text \<open>
  A distribution is the pair of \<open>dist.metadata['Name']\<close>, which is \<open>None\<close> when the
  metadata has no name, and \<open>dist.version\<close>.
\<close>

record runtime =
  stdlib_module_names :: "string set"
  find_spec :: "string \<Rightarrow> py_exn + module_spec option"
  distributions :: "(string option \<times> string) list"
  str_lower :: "string \<Rightarrow> string"
  has_Match :: bool
  ast_parse :: "string \<Rightarrow> py_exn + node list"
  json_loads :: "string \<Rightarrow> py_exn + json"
  read_text :: "path \<Rightarrow> py_exn + string"
  rglob :: "path \<Rightarrow> py_exn + path list"

record dependency_sets =
  third_party_set :: "string set"
  standard_lib_set :: "string set"
  unknown_set :: "string set"

record dependency_report =
  third_party :: "string list"
  standard_lib :: "string list"
  unknown :: "string list"

datatype yaml_dependency = DepStr string | DepPip "string list"

record conda_yaml =
  yaml_name :: string
  yaml_channels :: "string list"
  yaml_dependencies :: "yaml_dependency list"

datatype base_reqs = PyNone | Requirements "(string \<times> string) list"

record environment =
  recommended_python_version :: real
  python_version_reasoning :: "string list"
  dependencies :: dependency_report
  conda_environment_yaml :: conda_yaml
  base_requirements :: "base_reqs option"

subsection \<open>Strings and paths\<close>

text \<open>\<open>s.split('.')[0]\<close>: the text before the first dot.\<close>

definition top_level :: "string \<Rightarrow> string" where
  "top_level s = takeWhile (\<lambda>c. c \<noteq> CHR ''.'') s"

text \<open>\<open>p in s\<close> on strings.\<close>

fun contains :: "string \<Rightarrow> string \<Rightarrow> bool" where
  "contains p [] = (p = [])"
| "contains p (c # cs) = (take (length p) (c # cs) = p \<or> contains p cs)"

text \<open>\<open>sep.join(xs)\<close>.\<close>

fun join :: "string \<Rightarrow> string list \<Rightarrow> string" where
  "join sep [] = []"
| "join sep [x] = x"
| "join sep (x # y # ys) = x @ sep @ join sep (y # ys)"

text \<open>\<open>s.split('/')\<close>.\<close>

fun split_slash :: "string \<Rightarrow> string list" where
  "split_slash [] = [[]]"
| "split_slash (c # cs) =
     (if c = CHR ''/'' then [] # split_slash cs
      else (case split_slash cs of [] \<Rightarrow> [[c]] | w # ws \<Rightarrow> (c # w) # ws))"

text \<open>
  \<open>Path(p).name\<close> on a POSIX path: the last component after empty and \<open>.\<close> components
  are dropped, and the empty string when none is left.
\<close>

definition path_name :: "path \<Rightarrow> string" where
  "path_name p =
     (let parts = filter (\<lambda>w. w \<noteq> [] \<and> w \<noteq> ''.'') (split_slash p)
      in if parts = [] then [] else last parts)"

text \<open>\<open>name.rfind('.')\<close>, \<open>None\<close> for \<open>-1\<close>.\<close>

fun rfind_dot :: "string \<Rightarrow> nat option" where
  "rfind_dot [] = None"
| "rfind_dot (c # cs) =
     (case rfind_dot cs of
        Some i \<Rightarrow> Some (Suc i)
      | None \<Rightarrow> if c = CHR ''.'' then Some 0 else None)"

text \<open>\<open>Path(p).suffix\<close>: \<open>name[i:]\<close> when \<open>0 < i < len(name) - 1\<close>, else the empty string.\<close>

definition suffix :: "path \<Rightarrow> string" where
  "suffix p =
     (let name = path_name p
      in case rfind_dot name of
           None \<Rightarrow> []
         | Some i \<Rightarrow> if 0 < i \<and> i + 1 < length name then drop i name else [])"

text \<open>
  The text of a float in an f-string, for a float whose shortest decimal form has one
  fractional digit, as 3.5, 3.6, 3.7, 3.8, 3.9 and 3.10 (which is 3.1) all have.
\<close>

definition digit_char :: "nat \<Rightarrow> char" where
  "digit_char d = char_of (48 + d)"

fun nat_digits :: "nat \<Rightarrow> nat \<Rightarrow> string" where
  "nat_digits 0 n = []"
| "nat_digits (Suc fuel) n =
     (if n < 10 then [digit_char n] else nat_digits fuel (n div 10) @ [digit_char (n mod 10)])"

definition nat_str :: "nat \<Rightarrow> string" where
  "nat_str n = nat_digits (Suc n) n"

definition float_str :: "real \<Rightarrow> string" where
  "float_str x = nat_str (nat \<lfloor>x\<rfloor>) @ ''.'' @ nat_str (nat \<lfloor>x * 10\<rfloor> mod 10)"

subsection \<open>Imports of a script\<close>

definition add_import_names :: "node \<Rightarrow> string set \<Rightarrow> string set" where
  "add_import_names nd imports =
     (case nd of
        Import names \<Rightarrow> fold (\<lambda>name acc. insert (top_level name) acc) names imports
      | ImportFrom node_module \<Rightarrow>
          (case node_module of
             None \<Rightarrow> imports
           | Some m \<Rightarrow> if m \<noteq> [] then insert (top_level m) imports else imports)
      | _ \<Rightarrow> imports)"

definition walk_imports :: "node list \<Rightarrow> string set" where
  "walk_imports nodes = fold add_import_names nodes {}"

definition analyze_imports :: "runtime \<Rightarrow> path \<Rightarrow> py_exn + (string set \<times> effect list)" where
  "analyze_imports rt file_path =
     (case read_text rt file_path of
        Inl e \<Rightarrow> Inl e
      | Inr text \<Rightarrow>
          (case ast_parse rt text of
             Inl e \<Rightarrow>
               if e = SyntaxError
               then Inr ({}, [Print (''Warning: Syntax error in '' @ file_path)])
               else Inl e
           | Inr nodes \<Rightarrow> Inr (walk_imports nodes, [])))"

subsection \<open>Standard-library test\<close>

definition is_standard_library :: "runtime \<Rightarrow> string \<Rightarrow> py_exn + bool" where
  "is_standard_library rt module_name =
     (if module_name \<in> stdlib_module_names rt then Inr True
      else case find_spec rt module_name of
             Inl e \<Rightarrow> Inl e
           | Inr None \<Rightarrow> Inr False
           | Inr (Some spec) \<Rightarrow>
               (let location = (case origin spec of Some l \<Rightarrow> l | None \<Rightarrow> [])
                in Inr (\<not> contains ''site-packages'' location
                        \<and> \<not> contains ''dist-packages'' location)))"

subsection \<open>Notebooks\<close>

text \<open>\<open>v[key]\<close> with a string key: only a dict takes it, and raises KeyError without it.\<close>

fun subscript :: "json \<Rightarrow> string \<Rightarrow> py_exn + json" where
  "subscript (JObj kvs) key = (case map_of kvs key of None \<Rightarrow> Inl KeyError | Some v \<Rightarrow> Inr v)"
| "subscript v key = Inl TypeError"

text \<open>\<open>for x in v\<close>: the items of a list, the keys of a dict, the characters of a string.\<close>

fun iterate :: "json \<Rightarrow> py_exn + json list" where
  "iterate (JArr xs) = Inr xs"
| "iterate (JObj kvs) = Inr (map (\<lambda>kv. JStr (fst kv)) kvs)"
| "iterate (JStr s) = Inr (map (\<lambda>c. JStr [c]) s)"
| "iterate v = Inl TypeError"

text \<open>\<open>[cell['source'] for cell in cells if cell['cell_type'] == 'code']\<close>.\<close>

fun code_cells :: "json list \<Rightarrow> py_exn + json list" where
  "code_cells [] = Inr []"
| "code_cells (cell # cells) =
     (case subscript cell ''cell_type'' of
        Inl e \<Rightarrow> Inl e
      | Inr t \<Rightarrow>
          if t = JStr ''code''
          then (case subscript cell ''source'' of
                  Inl e \<Rightarrow> Inl e
                | Inr s \<Rightarrow>
                    (case code_cells cells of Inl e \<Rightarrow> Inl e | Inr ss \<Rightarrow> Inr (s # ss)))
          else code_cells cells)"

text \<open>\<open>''.join(source)\<close>: every item must be a string.\<close>

fun join_items :: "json list \<Rightarrow> py_exn + string" where
  "join_items [] = Inr []"
| "join_items (JStr s # xs) = (case join_items xs of Inl e \<Rightarrow> Inl e | Inr r \<Rightarrow> Inr (s @ r))"
| "join_items (v # xs) = Inl TypeError"

text \<open>\<open>source if isinstance(source, str) else ''.join(source)\<close>.\<close>

definition source_text :: "json \<Rightarrow> py_exn + string" where
  "source_text source =
     (case source of
        JStr s \<Rightarrow> Inr s
      | _ \<Rightarrow> (case iterate source of Inl e \<Rightarrow> Inl e | Inr items \<Rightarrow> join_items items))"

fun source_texts :: "json list \<Rightarrow> py_exn + string list" where
  "source_texts [] = Inr []"
| "source_texts (s # ss) =
     (case source_text s of
        Inl e \<Rightarrow> Inl e
      | Inr t \<Rightarrow> (case source_texts ss of Inl e \<Rightarrow> Inl e | Inr ts \<Rightarrow> Inr (t # ts)))"

text \<open>
  The part the two notebook functions share: load the notebook, take the code cells and
  join their text with newlines.
\<close>

definition combined_code :: "runtime \<Rightarrow> path \<Rightarrow> py_exn + string" where
  "combined_code rt file_path =
     (case read_text rt file_path of
        Inl e \<Rightarrow> Inl e
      | Inr text \<Rightarrow>
     (case json_loads rt text of
        Inl e \<Rightarrow> Inl e
      | Inr notebook \<Rightarrow>
     (case subscript notebook ''cells'' of
        Inl e \<Rightarrow> Inl e
      | Inr cells \<Rightarrow>
     (case iterate cells of
        Inl e \<Rightarrow> Inl e
      | Inr cs \<Rightarrow>
     (case code_cells cs of
        Inl e \<Rightarrow> Inl e
      | Inr sources \<Rightarrow>
     (case source_texts sources of
        Inl e \<Rightarrow> Inl e
      | Inr texts \<Rightarrow> Inr (join [CHR 0x0A] texts)))))))"

definition analyze_notebook_imports ::
  "runtime \<Rightarrow> path \<Rightarrow> py_exn + (string set \<times> effect list)" where
  "analyze_notebook_imports rt file_path =
     (let could_not_parse =
            Inr ({}, [Print (''Warning: Could not parse notebook '' @ file_path)])
      in case combined_code rt file_path of
           Inl e \<Rightarrow> if e = JSONDecodeError \<or> e = KeyError then could_not_parse else Inl e
         | Inr code \<Rightarrow>
             (case ast_parse rt code of
                Inl e \<Rightarrow>
                  if e = SyntaxError
                  then Inr ({}, [Print (''Warning: Syntax error in notebook '' @ file_path)])
                  else if e = JSONDecodeError \<or> e = KeyError then could_not_parse
                  else Inl e
              | Inr nodes \<Rightarrow> Inr (walk_imports nodes, [])))"

subsection \<open>Version thresholds\<close>

text \<open>
  The versions are Python floats written as decimal literals and only compared, so they
  are the real numbers the literals denote; \<open>3.10\<close> is the literal of the code.
\<close>

definition add_versions :: "bool \<Rightarrow> node \<Rightarrow> real set \<Rightarrow> real set" where
  "add_versions has_match nd required_versions =
     (let v1 = (if nd = AnnAssign then insert 3.5 required_versions else required_versions);
          v2 = (if nd = JoinedStr then insert 3.6 v1 else v1);
          v3 = (case nd of
                  ClassDef decorator_list \<Rightarrow>
                    fold (\<lambda>decorator acc.
                            if decorator = Name ''dataclass'' then insert 3.7 acc else acc)
                         decorator_list v2
                | _ \<Rightarrow> v2);
          v4 = (if nd = NamedExpr then insert 3.8 v3 else v3);
          v5 = (case nd of
                  BinOp left op right \<Rightarrow>
                    if op = BitOr \<and> (left = Dict \<or> right = Dict) then insert 3.9 v4 else v4
                | _ \<Rightarrow> v4)
      in if has_match \<and> nd = Match then insert 3.10 v5 else v5)"

definition walk_versions :: "bool \<Rightarrow> node list \<Rightarrow> real set" where
  "walk_versions has_match nodes = fold (add_versions has_match) nodes {}"

definition analyze_python_version ::
  "runtime \<Rightarrow> path \<Rightarrow> py_exn + (real set \<times> effect list)" where
  "analyze_python_version rt file_path =
     (case read_text rt file_path of
        Inl e \<Rightarrow> Inl e
      | Inr text \<Rightarrow>
          (case ast_parse rt text of
             Inl e \<Rightarrow> if e = SyntaxError then Inr ({}, []) else Inl e
           | Inr nodes \<Rightarrow> Inr (walk_versions (has_Match rt) nodes, [])))"

definition analyze_python_version_notebook ::
  "runtime \<Rightarrow> path \<Rightarrow> py_exn + (real set \<times> effect list)" where
  "analyze_python_version_notebook rt file_path =
     (let could_not_analyze =
            Inr ({}, [Print (''Warning: Could not analyze Python version in notebook ''
                             @ file_path)]);
          caught = (\<lambda>e. e = JSONDecodeError \<or> e = KeyError \<or> e = SyntaxError)
      in case combined_code rt file_path of
           Inl e \<Rightarrow> if caught e then could_not_analyze else Inl e
         | Inr code \<Rightarrow>
             (case ast_parse rt code of
                Inl e \<Rightarrow> if caught e then could_not_analyze else Inl e
              | Inr nodes \<Rightarrow> Inr (walk_versions (has_Match rt) nodes, [])))"

subsection \<open>The project: dependencies\<close>

text \<open>
  The dict comprehension over \<open>distributions()\<close>. The key is
  \<open>dist.metadata['Name'].lower()\<close>, which raises \<open>AttributeError\<close> when the name is
  \<open>None\<close>; a later entry replaces an earlier one with the same key.
\<close>

fun add_distributions ::
  "runtime \<Rightarrow> (string option \<times> string) list \<Rightarrow> (string \<rightharpoonup> string)
     \<Rightarrow> py_exn + (string \<rightharpoonup> string)" where
  "add_distributions rt [] m = Inr m"
| "add_distributions rt (distribution # rest) m =
     (case fst distribution of
        None \<Rightarrow> Inl AttributeError
      | Some name \<Rightarrow>
          add_distributions rt rest (m(str_lower rt name \<mapsto> snd distribution)))"

definition installed_packages :: "runtime \<Rightarrow> py_exn + (string \<rightharpoonup> string)" where
  "installed_packages rt = add_distributions rt (distributions rt) Map.empty"

text \<open>The body of the loop over the imports of a unit.\<close>

definition classify_import ::
  "runtime \<Rightarrow> (string \<rightharpoonup> string) \<Rightarrow> string \<Rightarrow> dependency_sets \<Rightarrow> py_exn + dependency_sets" where
  "classify_import rt installed import_name deps =
     (let import_name_lower = str_lower rt import_name
      in case is_standard_library rt import_name of
           Inl e \<Rightarrow> Inl e
         | Inr True \<Rightarrow>
             Inr (deps\<lparr>standard_lib_set := insert import_name (standard_lib_set deps)\<rparr>)
         | Inr False \<Rightarrow>
             (case installed import_name_lower of
                Some v \<Rightarrow>
                  Inr (deps\<lparr>third_party_set :=
                              insert (import_name @ ''=='' @ v) (third_party_set deps)\<rparr>)
              | None \<Rightarrow> Inr (deps\<lparr>unknown_set := insert import_name (unknown_set deps)\<rparr>)))"

fun classify_imports ::
  "runtime \<Rightarrow> (string \<rightharpoonup> string) \<Rightarrow> string list \<Rightarrow> dependency_sets \<Rightarrow> py_exn + dependency_sets" where
  "classify_imports rt installed [] deps = Inr deps"
| "classify_imports rt installed (n # ns) deps =
     (case classify_import rt installed n deps of
        Inl e \<Rightarrow> Inl e
      | Inr deps' \<Rightarrow> classify_imports rt installed ns deps')"

text \<open>The imports of one path of the walk; \<open>None\<close> is the \<open>continue\<close> of the loop.\<close>

definition file_imports ::
  "runtime \<Rightarrow> path \<Rightarrow> (py_exn + (string set \<times> effect list)) option" where
  "file_imports rt file_path =
     (if suffix file_path = ''.py'' then Some (analyze_imports rt file_path)
      else if suffix file_path = ''.ipynb'' then Some (analyze_notebook_imports rt file_path)
      else None)"

text \<open>
  The loop over the walk. A Python set is iterated in an order the language leaves open;
  the model takes the names in sorted order.
\<close>

fun scan_imports ::
  "runtime \<Rightarrow> (string \<rightharpoonup> string) \<Rightarrow> path list \<Rightarrow> dependency_sets \<times> effect list
     \<Rightarrow> py_exn + (dependency_sets \<times> effect list)" where
  "scan_imports rt installed [] acc = Inr acc"
| "scan_imports rt installed (file_path # rest) acc =
     (case file_imports rt file_path of
        None \<Rightarrow> scan_imports rt installed rest acc
      | Some (Inl e) \<Rightarrow> Inl e
      | Some (Inr (imports, out)) \<Rightarrow>
          (case classify_imports rt installed (sorted_list_of_set imports) (fst acc) of
             Inl e \<Rightarrow> Inl e
           | Inr deps' \<Rightarrow> scan_imports rt installed rest (deps', snd acc @ out)))"

definition detect_project_dependencies ::
  "runtime \<Rightarrow> path \<Rightarrow> py_exn + (dependency_report \<times> effect list)" where
  "detect_project_dependencies rt directory =
     (let dependencies0 = \<lparr>third_party_set = {}, standard_lib_set = {}, unknown_set = {}\<rparr>
      in case installed_packages rt of
           Inl e \<Rightarrow> Inl e
         | Inr installed \<Rightarrow>
      (case rglob rt directory of
           Inl e \<Rightarrow> Inl e
         | Inr paths \<Rightarrow>
             (case scan_imports rt installed paths (dependencies0, []) of
                Inl e \<Rightarrow> Inl e
              | Inr (deps, out) \<Rightarrow>
                  Inr (\<lparr>third_party = sorted_list_of_set (third_party_set deps),
                        standard_lib = sorted_list_of_set (standard_lib_set deps),
                        unknown = sorted_list_of_set (unknown_set deps)\<rparr>, out))))"

subsection \<open>The project: recommended version\<close>

definition file_versions ::
  "runtime \<Rightarrow> path \<Rightarrow> (py_exn + (real set \<times> effect list)) option" where
  "file_versions rt file_path =
     (if suffix file_path = ''.py'' then Some (analyze_python_version rt file_path)
      else if suffix file_path = ''.ipynb''
      then Some (analyze_python_version_notebook rt file_path)
      else None)"

fun scan_versions ::
  "runtime \<Rightarrow> path list \<Rightarrow> real set \<times> effect list \<Rightarrow> py_exn + (real set \<times> effect list)" where
  "scan_versions rt [] acc = Inr acc"
| "scan_versions rt (file_path # rest) acc =
     (case file_versions rt file_path of
        None \<Rightarrow> scan_versions rt rest acc
      | Some (Inl e) \<Rightarrow> Inl e
      | Some (Inr (file_vs, out)) \<Rightarrow>
          scan_versions rt rest (fst acc \<union> file_vs, snd acc @ out))"

text \<open>The set \<open>required_versions\<close> when the loop of \<open>get_python_version\<close> has ended.\<close>

definition required_versions_of :: "runtime \<Rightarrow> path \<Rightarrow> py_exn + (real set \<times> effect list)" where
  "required_versions_of rt directory =
     (case rglob rt directory of
        Inl e \<Rightarrow> Inl e
      | Inr paths \<Rightarrow> scan_versions rt paths ({}, []))"

definition get_python_version :: "runtime \<Rightarrow> path \<Rightarrow> py_exn + (real \<times> effect list)" where
  "get_python_version rt directory =
     (case required_versions_of rt directory of
        Inl e \<Rightarrow> Inl e
      | Inr (required_versions, out) \<Rightarrow>
          Inr (if required_versions \<noteq> {} then Max required_versions else 3.5, out))"

subsection \<open>The environment\<close>

definition generate_base_requirements ::
  "runtime \<Rightarrow> path \<Rightarrow> string \<Rightarrow> py_exn + (base_reqs \<times> effect list)" where
  "generate_base_requirements rt directory output_file =
     (case get_python_version rt directory of
        Inl e \<Rightarrow> Inl e
      | Inr (python_version, out1) \<Rightarrow>
          (case detect_project_dependencies rt directory of
             Inl e \<Rightarrow> Inl e
           | Inr (deps, out2) \<Rightarrow> Inr (PyNone, out1 @ out2)))"

definition version_reasoning :: "real \<Rightarrow> string list" where
  "version_reasoning python_version =
     (if python_version \<ge> 3.10 then [''Match statements detected (Python 3.10+)''] else [])
     @ (if python_version \<ge> 3.9
        then [''Dictionary union operators detected (Python 3.9+)''] else [])
     @ (if python_version \<ge> 3.8 then [''Walrus operator detected (Python 3.8+)''] else [])
     @ (if python_version \<ge> 3.7 then [''Dataclasses detected (Python 3.7+)''] else [])
     @ (if python_version \<ge> 3.6 then [''F-strings detected (Python 3.6+)''] else [])
     @ (if python_version \<ge> 3.5 then [''Type hints detected (Python 3.5+)''] else [])"

definition predict_python_environment ::
  "runtime \<Rightarrow> path \<Rightarrow> bool \<Rightarrow> py_exn + (environment \<times> effect list)" where
  "predict_python_environment rt directory generate_base_reqs =
     (case get_python_version rt directory of
        Inl e \<Rightarrow> Inl e
      | Inr (python_version, out1) \<Rightarrow>
     (case detect_project_dependencies rt directory of
        Inl e \<Rightarrow> Inl e
      | Inr (deps, out2) \<Rightarrow>
          (let environment0 =
                 \<lparr>recommended_python_version = python_version,
                  python_version_reasoning = version_reasoning python_version,
                  dependencies = deps,
                  conda_environment_yaml =
                    \<lparr>yaml_name = path_name directory,
                     yaml_channels = [''defaults'', ''conda-forge''],
                     yaml_dependencies =
                       [DepStr (''python>='' @ float_str python_version),
                        DepStr ''pip'',
                        DepPip (third_party deps)]\<rparr>,
                  base_requirements = None\<rparr>
           in if generate_base_reqs
              then (case generate_base_requirements rt directory ''base_requirements.txt'' of
                      Inl e \<Rightarrow> Inl e
                    | Inr (reqs, out3) \<Rightarrow>
                        Inr (environment0\<lparr>base_requirements := Some reqs\<rparr>,
                             out1 @ out2 @ out3))
              else Inr (environment0, out1 @ out2))))"

subsection \<open>Notions of the specification\<close>

text \<open>The sentence the code appends for each threshold from 3.5 to 3.9.\<close>

definition threshold_reason :: "real \<Rightarrow> string" where
  "threshold_reason t =
     (if t = 3.9 then ''Dictionary union operators detected (Python 3.9+)''
      else if t = 3.8 then ''Walrus operator detected (Python 3.8+)''
      else if t = 3.7 then ''Dataclasses detected (Python 3.7+)''
      else if t = 3.6 then ''F-strings detected (Python 3.6+)''
      else ''Type hints detected (Python 3.5+)'')"

definition match_reason :: string where
  "match_reason = ''Match statements detected (Python 3.10+)''"


text \<open>The import names of one path of the walk, and of all of them.\<close>

definition unit_imports :: "runtime \<Rightarrow> path \<Rightarrow> string set" where
  "unit_imports rt file_path =
     (case file_imports rt file_path of Some (Inr (imports, out)) \<Rightarrow> imports | _ \<Rightarrow> {})"

definition project_imports :: "runtime \<Rightarrow> path list \<Rightarrow> string set" where
  "project_imports rt paths = \<Union> (set (map (unit_imports rt) paths))"

text \<open>A resolved location with one of the two markers of a third-party installation.\<close>

definition third_party_location :: "module_spec \<Rightarrow> bool" where
  "third_party_location spec =
     (let location = (case origin spec of Some l \<Rightarrow> l | None \<Rightarrow> [])
      in contains ''site-packages'' location \<or> contains ''dist-packages'' location)"



text \<open>
  Where the body of the dependency loop puts the names of a set: the names it files as
  standard library, the entries it files as third party, the names it files as unknown.
\<close>

definition std_names :: "runtime \<Rightarrow> string set \<Rightarrow> string set" where
  "std_names rt names = {n \<in> names. is_standard_library rt n = Inr True}"

definition third_party_names :: "runtime \<Rightarrow> (string \<rightharpoonup> string) \<Rightarrow> string set \<Rightarrow> string set" where
  "third_party_names rt installed names =
     {n \<in> names. is_standard_library rt n = Inr False
                  \<and> installed (str_lower rt n) \<noteq> None}"

definition third_party_entry ::
  "runtime \<Rightarrow> (string \<rightharpoonup> string) \<Rightarrow> string \<Rightarrow> string" where
  "third_party_entry rt installed n =
     n @ ''=='' @ (case installed (str_lower rt n) of Some v \<Rightarrow> v | None \<Rightarrow> [])"

definition unknown_names :: "runtime \<Rightarrow> (string \<rightharpoonup> string) \<Rightarrow> string set \<Rightarrow> string set" where
  "unknown_names rt installed names =
     {n \<in> names. is_standard_library rt n = Inr False \<and> installed (str_lower rt n) = None}"



text \<open>\<open>installed_packages.get(name.lower())\<close>, once the registry is built.\<close>

definition installed_version :: "runtime \<Rightarrow> string \<Rightarrow> py_exn + string option" where
  "installed_version rt name =
     (case installed_packages rt of
        Inl e \<Rightarrow> Inl e
      | Inr installed \<Rightarrow> Inr (installed (str_lower rt name)))"


text \<open>The sets of a result, without what was printed.\<close>

definition outcome :: "'e + ('a \<times> effect list) \<Rightarrow> 'e + 'a" where
  "outcome r = (case r of Inl e \<Rightarrow> Inl e | Inr (x, out) \<Rightarrow> Inr x)"

definition with_listing :: "runtime \<Rightarrow> path list \<Rightarrow> runtime" where
  "with_listing rt paths = rt\<lparr>rglob := (\<lambda>d. Inr paths)\<rparr>"

text \<open>The paths of the files an effect list writes.\<close>

fun written_files :: "effect list \<Rightarrow> string list" where
  "written_files [] = []"
| "written_files (Print s # es) = written_files es"
| "written_files (WriteFile p text # es) = p # written_files es"

subsection \<open>A runtime and projects to evaluate the analysis on\<close>

definition src_std :: string where
  "src_std = ''import os\<newline>import json''"

definition src_fstring :: string where
  \<open>src_fstring = ''print(f"{x}")''\<close>

definition src_match :: string where
  "src_match = ''match command:\<newline>    case _:\<newline>        pass''"

definition src_dict_match :: string where
  "src_dict_match = ''d = {} | e\<newline>match d:\<newline>    case _:\<newline>        pass''"

definition src_ann_match :: string where
  "src_ann_match = ''x: int = 1\<newline>match x:\<newline>    case _:\<newline>        pass''"

definition src_walrus :: string where
  "src_walrus = ''if (n := 10) > 5: pass''"

definition src_packages :: string where
  "src_packages =
     ''import pillow\<newline>import yaml\<newline>import os.path\<newline>import tool''"

definition src_requests :: string where
  "src_requests =
     ''import requests\<newline>from . import sibling\<newline>from mylocal.util import f''"

definition src_mixed :: string where
  "src_mixed =
     ''import os\<newline>import mylocal\<newline>import pillow\<newline>import yaml\<newline>import requests''"

definition src_broken :: string where
  "src_broken = ''def f(:''"

definition nb_array :: string where
  "nb_array = ''[]''"

definition nb_no_cells :: string where
  \<open>nb_no_cells = ''{"metadata": {}}''\<close>


definition nb_two_cells :: string where
  \<open>nb_two_cells = ''{"cells": [{"cell_type": "code", "source": "import os"}, {"cell_type": "markdown", "source": "# notes"}, {"cell_type": "code", "source": ["import ", "json"]}]}''\<close>

text \<open>The nodes of the sources above, in the order of \<open>ast.walk\<close>; any other text is a syntax error.\<close>

definition demo_parse :: "string \<Rightarrow> py_exn + node list" where
  "demo_parse text =
     (case map_of
        [(src_std, [OtherNode, Import [''os''], Import [''json''], OtherNode, OtherNode]),
         (src_fstring,
            [OtherNode, OtherNode, OtherNode, OtherNode, JoinedStr, OtherNode, OtherNode]),
         (src_match, [OtherNode, Match, OtherNode, OtherNode, OtherNode, OtherNode]),
         (src_dict_match,
            [OtherNode, OtherNode, Match, OtherNode, BinOp Dict BitOr OtherExpr, OtherNode,
             OtherNode, OtherNode, OtherNode, OtherNode]),
         (src_ann_match,
            [OtherNode, AnnAssign, Match, OtherNode, OtherNode, OtherNode, OtherNode]),
         (src_walrus, [OtherNode, OtherNode, OtherNode, OtherNode, NamedExpr, OtherNode]),
         (src_packages,
            [OtherNode, Import [''pillow''], Import [''yaml''], Import [''os.path''],
             Import [''tool'']]),
         (src_requests,
            [OtherNode, Import [''requests''], ImportFrom None,
             ImportFrom (Some ''mylocal.util'')]),
         (src_mixed,
            [OtherNode, Import [''os''], Import [''mylocal''], Import [''pillow''],
             Import [''yaml''], Import [''requests'']])]
        text of
        Some nodes \<Rightarrow> Inr nodes
      | None \<Rightarrow> Inl SyntaxError)"

definition demo_loads :: "string \<Rightarrow> py_exn + json" where
  "demo_loads text =
     (case map_of
        [(nb_array, JArr []),
         (nb_no_cells, JObj [(''metadata'', JObj [])]),
         (nb_two_cells,
            JObj [(''cells'',
                   JArr [JObj [(''cell_type'', JStr ''code''), (''source'', JStr ''import os'')],
                         JObj [(''cell_type'', JStr ''markdown''),
                               (''source'', JStr ''# notes'')],
                         JObj [(''cell_type'', JStr ''code''),
                               (''source'', JArr [JStr ''import '', JStr ''json''])]])])]
        text of
        Some v \<Rightarrow> Inr v
      | None \<Rightarrow> Inl JSONDecodeError)"

definition demo_find_spec :: "string \<Rightarrow> py_exn + module_spec option" where
  "demo_find_spec module_name =
     (if module_name = ''requests''
      then Inr (Some \<lparr>origin =
                       Some ''/usr/lib/python3.11/site-packages/requests/__init__.py''\<rparr>)
      else if module_name = ''yaml''
      then Inr (Some \<lparr>origin = Some ''/usr/lib/python3/dist-packages/yaml/__init__.py''\<rparr>)
      else if module_name = ''mylocal''
      then Inr (Some \<lparr>origin = Some ''/home/user/proj/mylocal/__init__.py''\<rparr>)
      else if module_name = ''tool''
      then Inr (Some \<lparr>origin = Some ''/home/user/my-site-packages-tools/tool.py''\<rparr>)
      else Inr None)"

text \<open>
  \<open>str.lower\<close> on ASCII text, which all the names below are: the letters A to Z are
  lowered, every other ASCII character is kept.
\<close>

definition ascii_lower_char :: "char \<Rightarrow> char" where
  "ascii_lower_char c =
     (if CHR ''A'' \<le> c \<and> c \<le> CHR ''Z'' then char_of (of_char c + (32::nat)) else c)"

definition ascii_lower :: "string \<Rightarrow> string" where
  "ascii_lower s = map ascii_lower_char s"

text \<open>
  A runtime over a table of files: the walk yields the paths of the table, in its order,
  and a file is read to the text or the exception the table gives.
\<close>

definition demo_runtime :: "(path \<times> (py_exn + string)) list \<Rightarrow> runtime" where
  "demo_runtime files =
     \<lparr>stdlib_module_names = {''os'', ''json'', ''sys''},
      find_spec = demo_find_spec,
      distributions =
        [(Some ''requests'', ''2.31.0''), (Some ''Pillow'', ''10.0.0''),
         (Some ''PyYAML'', ''6.0'')],
      str_lower = ascii_lower,
      has_Match = True,
      ast_parse = demo_parse,
      json_loads = demo_loads,
      read_text = (\<lambda>p. case map_of files p of Some r \<Rightarrow> r | None \<Rightarrow> Inl OSError),
      rglob = (\<lambda>d. Inr (map fst files))\<rparr>"

text \<open>Projects and the environments the analysis computes for them.\<close>

definition project_requests :: runtime where
  "project_requests = demo_runtime [(''/home/user/proj/app.py'', Inr src_requests)]"

definition env_requests :: environment where
  "env_requests =
     \<lparr>recommended_python_version = 3.5,
      python_version_reasoning = [match_reason, threshold_reason 3.5],
      dependencies =
        \<lparr>third_party = [''requests==2.31.0''], standard_lib = [''mylocal''], unknown = []\<rparr>,
      conda_environment_yaml =
        \<lparr>yaml_name = ''proj'',
         yaml_channels = [''defaults'', ''conda-forge''],
         yaml_dependencies =
           [DepStr ''python>=3.5'', DepStr ''pip'', DepPip [''requests==2.31.0'']]\<rparr>,
      base_requirements = None\<rparr>"

definition project_std_broken :: runtime where
  "project_std_broken =
     demo_runtime [(''proj/main.py'', Inr src_std), (''proj/bad.py'', Inr src_broken)]"

definition env_std_broken :: environment where
  "env_std_broken =
     \<lparr>recommended_python_version = 3.5,
      python_version_reasoning = [match_reason, threshold_reason 3.5],
      dependencies = \<lparr>third_party = [], standard_lib = [''json'', ''os''], unknown = []\<rparr>,
      conda_environment_yaml =
        \<lparr>yaml_name = ''proj'',
         yaml_channels = [''defaults'', ''conda-forge''],
         yaml_dependencies = [DepStr ''python>=3.5'', DepStr ''pip'', DepPip []]\<rparr>,
      base_requirements = Some PyNone\<rparr>"

definition project_fstring :: runtime where
  "project_fstring = demo_runtime [(''proj/a.py'', Inr src_fstring)]"

definition env_fstring :: environment where
  "env_fstring =
     \<lparr>recommended_python_version = 3.6,
      python_version_reasoning =
        [''Match statements detected (Python 3.10+)'',
         ''F-strings detected (Python 3.6+)'',
         ''Type hints detected (Python 3.5+)''],
      dependencies = \<lparr>third_party = [], standard_lib = [], unknown = []\<rparr>,
      conda_environment_yaml =
        \<lparr>yaml_name = ''proj'',
         yaml_channels = [''defaults'', ''conda-forge''],
         yaml_dependencies = [DepStr ''python>=3.6'', DepStr ''pip'', DepPip []]\<rparr>,
      base_requirements = None\<rparr>"

definition project_match :: runtime where
  "project_match = demo_runtime [(''proj/a.py'', Inr src_match)]"

definition env_match :: environment where
  "env_match =
     \<lparr>recommended_python_version = 3.1,
      python_version_reasoning = [''Match statements detected (Python 3.10+)''],
      dependencies = \<lparr>third_party = [], standard_lib = [], unknown = []\<rparr>,
      conda_environment_yaml =
        \<lparr>yaml_name = ''proj'',
         yaml_channels = [''defaults'', ''conda-forge''],
         yaml_dependencies = [DepStr ''python>=3.1'', DepStr ''pip'', DepPip []]\<rparr>,
      base_requirements = None\<rparr>"

definition project_dict_match :: runtime where
  "project_dict_match = demo_runtime [(''proj/a.py'', Inr src_dict_match)]"

definition project_ann_match :: runtime where
  "project_ann_match = demo_runtime [(''proj/a.py'', Inr src_ann_match)]"

definition project_mixed :: runtime where
  "project_mixed = demo_runtime [(''proj/app.py'', Inr src_mixed)]"

definition project_packages :: runtime where
  "project_packages =
     demo_runtime [(''proj/a.py'', Inr src_packages), (''proj/README.md'', Inr ''notes'')]"









section \<open>Properties\<close>

subsection \<open>What the analysis prints\<close>

lemma written_files_append [simp]:
  "written_files (xs @ ys) = written_files xs @ written_files ys"
  by (induction xs rule: written_files.induct) auto

lemma analyze_imports_writes:
  "analyze_imports rt p = Inr (s, out) \<Longrightarrow> written_files out = []"
  by (auto simp: analyze_imports_def split: sum.splits if_splits)

lemma analyze_notebook_imports_writes:
  "analyze_notebook_imports rt p = Inr (s, out) \<Longrightarrow> written_files out = []"
  by (auto simp: analyze_notebook_imports_def Let_def split: sum.splits if_splits)

lemma analyze_python_version_writes:
  "analyze_python_version rt p = Inr (s, out) \<Longrightarrow> written_files out = []"
  by (auto simp: analyze_python_version_def split: sum.splits if_splits)

lemma analyze_python_version_notebook_writes:
  "analyze_python_version_notebook rt p = Inr (s, out) \<Longrightarrow> written_files out = []"
  by (auto simp: analyze_python_version_notebook_def Let_def split: sum.splits if_splits)

lemma file_imports_writes:
  "file_imports rt p = Some (Inr (s, out)) \<Longrightarrow> written_files out = []"
  by (auto simp: file_imports_def split: if_splits
           dest: analyze_imports_writes analyze_notebook_imports_writes)

lemma file_versions_writes:
  "file_versions rt p = Some (Inr (s, out)) \<Longrightarrow> written_files out = []"
  by (auto simp: file_versions_def split: if_splits
           dest: analyze_python_version_writes analyze_python_version_notebook_writes)

lemma scan_imports_writes:
  "scan_imports rt inst ps acc = Inr (deps, out) \<Longrightarrow> written_files (snd acc) = []
     \<Longrightarrow> written_files out = []"
proof (induction ps arbitrary: acc)
  case Nil
  then show ?case by auto
next
  case (Cons p ps)
  then show ?case
    by (auto split: option.splits sum.splits prod.splits dest!: file_imports_writes)
qed

lemma scan_versions_writes:
  "scan_versions rt ps acc = Inr (vs, out) \<Longrightarrow> written_files (snd acc) = []
     \<Longrightarrow> written_files out = []"
proof (induction ps arbitrary: acc)
  case Nil
  then show ?case by auto
next
  case (Cons p ps)
  then show ?case
    by (auto split: option.splits sum.splits prod.splits dest!: file_versions_writes)
qed

lemma detect_project_dependencies_writes:
  "detect_project_dependencies rt d = Inr (r, out) \<Longrightarrow> written_files out = []"
  by (auto simp: detect_project_dependencies_def Let_def split: sum.splits prod.splits
           dest!: scan_imports_writes)

lemma get_python_version_writes:
  "get_python_version rt d = Inr (v, out) \<Longrightarrow> written_files out = []"
  by (auto simp: get_python_version_def required_versions_of_def split: sum.splits prod.splits
           dest!: scan_versions_writes)

subsection \<open>The manifest and the base requirements\<close>

text \<open>
  C8. Whenever \<open>predict_python_environment\<close> returns, the manifest has the name
  \<open>Path(directory).name\<close>, the channels \<open>defaults\<close> and \<open>conda-forge\<close>, and exactly three
  dependency entries: \<open>python>=\<close> followed by the recommended version, the entry \<open>pip\<close>, and
  the nested pip list, which is the third-party partition of the report. The recommended
  version and the report are the results of \<open>get_python_version\<close> and
  \<open>detect_project_dependencies\<close>.
\<close>

theorem manifest_skeleton:
  assumes "predict_python_environment rt directory g = Inr (env, out)"
  shows "yaml_name (conda_environment_yaml env) = path_name directory
     \<and> yaml_channels (conda_environment_yaml env) = [''defaults'', ''conda-forge'']
     \<and> yaml_dependencies (conda_environment_yaml env) =
         [DepStr (''python>='' @ float_str (recommended_python_version env)),
          DepStr ''pip'',
          DepPip (third_party (dependencies env))]
     \<and> outcome (get_python_version rt directory) = Inr (recommended_python_version env)
     \<and> outcome (detect_project_dependencies rt directory) = Inr (dependencies env)"
  using assms
  by (auto simp: predict_python_environment_def outcome_def Let_def
           split: sum.splits prod.splits if_splits)

text \<open>
  The manifest of a project in \<open>/home/user/proj\<close> that imports \<open>requests\<close>, installed as
  2.31.0.
\<close>

theorem manifest_skeleton_witness:
  "predict_python_environment project_requests ''/home/user/proj'' False
     = Inr (env_requests, [])
   \<and> yaml_name (conda_environment_yaml env_requests) = ''proj''
   \<and> yaml_dependencies (conda_environment_yaml env_requests) =
       [DepStr ''python>=3.5'', DepStr ''pip'', DepPip [''requests==2.31.0'']]"
proof -
  have run: "predict_python_environment project_requests ''/home/user/proj'' False
     = Inr (env_requests, [])"
    by code_simp
  from manifest_skeleton [OF run] run show ?thesis
    by (simp add: env_requests_def)
qed

text \<open>
  C10. \<open>generate_base_requirements\<close> runs the version analysis and the dependency analysis
  and nothing else: when both return, it returns \<open>None\<close> with what they printed; whenever it
  returns, its value is \<open>None\<close> and it has written no file; and an environment built with
  \<open>generate_base_reqs=True\<close> has the entry \<open>base_requirements\<close> with the value \<open>None\<close>.
\<close>

theorem base_requirements_none:
  "(get_python_version rt directory = Inr (v, out1)
      \<and> detect_project_dependencies rt directory = Inr (deps, out2)
      \<longrightarrow> generate_base_requirements rt directory output_file = Inr (PyNone, out1 @ out2))
   \<and> (generate_base_requirements rt directory output_file = Inr (reqs, out)
      \<longrightarrow> reqs = PyNone \<and> written_files out = [])
   \<and> (predict_python_environment rt directory True = Inr (env, out')
      \<longrightarrow> base_requirements env = Some PyNone)"
proof (intro conjI impI)
  assume "get_python_version rt directory = Inr (v, out1)
      \<and> detect_project_dependencies rt directory = Inr (deps, out2)"
  then show "generate_base_requirements rt directory output_file = Inr (PyNone, out1 @ out2)"
    by (simp add: generate_base_requirements_def)
next
  assume g: "generate_base_requirements rt directory output_file = Inr (reqs, out)"
  then show "reqs = PyNone"
    by (auto simp: generate_base_requirements_def split: sum.splits prod.splits)
  from g show "written_files out = []"
    by (auto simp: generate_base_requirements_def split: sum.splits prod.splits
             dest!: get_python_version_writes detect_project_dependencies_writes)
next
  assume "predict_python_environment rt directory True = Inr (env, out')"
  then show "base_requirements env = Some PyNone"
    by (auto simp: predict_python_environment_def generate_base_requirements_def Let_def
             split: sum.splits prod.splits)
qed

text \<open>
  A project of two scripts, one of which does not parse: both analyses return, the base
  requirements are \<open>None\<close> and only the warning is printed.
\<close>

theorem base_requirements_none_witness:
  "get_python_version project_std_broken ''proj'' = Inr (3.5, [])
   \<and> detect_project_dependencies project_std_broken ''proj''
       = Inr (\<lparr>third_party = [], standard_lib = [''json'', ''os''], unknown = []\<rparr>,
              [Print ''Warning: Syntax error in proj/bad.py''])
   \<and> generate_base_requirements project_std_broken ''proj'' ''base_requirements.txt''
       = Inr (PyNone, [Print ''Warning: Syntax error in proj/bad.py''])
   \<and> predict_python_environment project_std_broken ''proj'' True
       = Inr (env_std_broken,
              [Print ''Warning: Syntax error in proj/bad.py'',
               Print ''Warning: Syntax error in proj/bad.py''])
   \<and> base_requirements env_std_broken = Some PyNone"
proof -
  have v: "get_python_version project_std_broken ''proj'' = Inr (3.5, [])"
    by code_simp
  have d: "detect_project_dependencies project_std_broken ''proj''
       = Inr (\<lparr>third_party = [], standard_lib = [''json'', ''os''], unknown = []\<rparr>,
              [Print ''Warning: Syntax error in proj/bad.py''])"
    by code_simp
  have p: "predict_python_environment project_std_broken ''proj'' True
       = Inr (env_std_broken,
              [Print ''Warning: Syntax error in proj/bad.py'',
               Print ''Warning: Syntax error in proj/bad.py''])"
    by code_simp
  note t = base_requirements_none
    [of project_std_broken "''proj''" "3.5" "[]"
        "\<lparr>third_party = [], standard_lib = [''json'', ''os''], unknown = []\<rparr>"
        "[Print ''Warning: Syntax error in proj/bad.py'']"
        "''base_requirements.txt''" PyNone
        "[Print ''Warning: Syntax error in proj/bad.py'']" env_std_broken
        "[Print ''Warning: Syntax error in proj/bad.py'',
          Print ''Warning: Syntax error in proj/bad.py'']"]
  from t v d p show ?thesis
    by simp
qed

subsection \<open>The recommended version\<close>

text \<open>
  C9. The threshold the code adds for a match statement is the number 3.1, below the 3.9 of
  the dict-union test. So a project whose set of detected thresholds is \<open>{3.10}\<close> gets the
  recommended version 3.1, and its manifest pins \<open>python>=3.1\<close>.
\<close>

theorem match_threshold:
  "walk_versions True [Match] = {3.1}
   \<and> walk_versions True [BinOp Dict BitOr OtherExpr] = {3.9}
   \<and> Max (walk_versions True [Match]) < Max (walk_versions True [BinOp Dict BitOr OtherExpr])
   \<and> (required_versions_of rt directory = Inr ({3.10}, out)
        \<longrightarrow> get_python_version rt directory = Inr (3.1, out))
   \<and> (required_versions_of rt directory = Inr ({3.10}, out)
        \<and> predict_python_environment rt directory g = Inr (env, out')
        \<longrightarrow> recommended_python_version env = 3.1
            \<and> hd (yaml_dependencies (conda_environment_yaml env)) = DepStr ''python>=3.1'')"
proof (intro conjI impI)
  show "walk_versions True [Match] = {3.1}"
    by (simp add: walk_versions_def add_versions_def)
  show "walk_versions True [BinOp Dict BitOr OtherExpr] = {3.9}"
    by (simp add: walk_versions_def add_versions_def)
  show "Max (walk_versions True [Match]) < Max (walk_versions True [BinOp Dict BitOr OtherExpr])"
    by (simp add: walk_versions_def add_versions_def)
next
  assume "required_versions_of rt directory = Inr ({3.10}, out)"
  then show "get_python_version rt directory = Inr (3.1, out)"
    by (simp add: get_python_version_def)
next
  assume a: "required_versions_of rt directory = Inr ({3.10}, out)
        \<and> predict_python_environment rt directory g = Inr (env, out')"
  then have v: "get_python_version rt directory = Inr (3.1, out)"
    by (simp add: get_python_version_def)
  have f: "float_str 3.1 = ''3.1''"
    by code_simp
  from a v show "recommended_python_version env = 3.1"
    by (auto simp: predict_python_environment_def Let_def
             split: sum.splits prod.splits if_splits)
  from a v f show "hd (yaml_dependencies (conda_environment_yaml env)) = DepStr ''python>=3.1''"
    by (auto simp: predict_python_environment_def Let_def
             split: sum.splits prod.splits if_splits)
qed

text \<open>A project of one script whose only feature is a match statement.\<close>

theorem match_threshold_witness:
  "required_versions_of project_match ''proj'' = Inr ({3.10}, [])
   \<and> get_python_version project_match ''proj'' = Inr (3.1, [])
   \<and> predict_python_environment project_match ''proj'' False = Inr (env_match, [])
   \<and> recommended_python_version env_match = 3.1
   \<and> hd (yaml_dependencies (conda_environment_yaml env_match)) = DepStr ''python>=3.1''"
proof -
  have r: "required_versions_of project_match ''proj'' = Inr ({3.10}, [])"
    by code_simp
  have p: "predict_python_environment project_match ''proj'' False = Inr (env_match, [])"
    by code_simp
  from match_threshold [of project_match "''proj''" "[]" False env_match "[]"] r p
  show ?thesis
    by simp
qed

text \<open>
  C1, at a script with a dict display under bitwise-or and a match statement: the detected
  thresholds are 3.9 and 3.10, and \<open>get_python_version\<close> returns 3.9, not 3.10, because the
  maximum is taken of the numbers and 3.10 is 3.1.
\<close>

theorem dict_union_and_match_give_3_9:
  "required_versions_of project_dict_match ''proj'' = Inr ({3.9, 3.10}, [])
   \<and> get_python_version project_dict_match ''proj'' = Inr (3.9, [])"
  by code_simp

text \<open>
  C5, at two projects: a script with a match statement alone gets the version 3.10; the
  same script with an annotated assignment before it has the larger set of thresholds and
  gets 3.5, which the ordering of the specification puts below 3.10.
\<close>

theorem more_features_lower_version:
  "required_versions_of project_match ''proj'' = Inr ({3.10}, [])
   \<and> required_versions_of project_ann_match ''proj'' = Inr ({3.5, 3.10}, [])
   \<and> get_python_version project_match ''proj'' = Inr (3.10, [])
   \<and> get_python_version project_ann_match ''proj'' = Inr (3.5, [])"
  by code_simp

subsection \<open>The reasoning strings\<close>

text \<open>
  C3, as the code has it. Apart from the match line, the reasoning of a returned environment
  is one sentence for every threshold from 3.5 to 3.9 at or below the recommended version,
  the highest threshold first.
\<close>

theorem reasoning_descending:
  assumes "predict_python_environment rt directory g = Inr (env, out)"
  shows "filter (\<lambda>s. s \<noteq> match_reason) (python_version_reasoning env)
         = map threshold_reason
             (filter (\<lambda>t. t \<le> recommended_python_version env) [3.9, 3.8, 3.7, 3.6, 3.5])"
proof -
  have r: "python_version_reasoning env = version_reasoning (recommended_python_version env)"
    using assms
    by (auto simp: predict_python_environment_def Let_def
             split: sum.splits prod.splits if_splits)
  have "filter (\<lambda>s. s \<noteq> match_reason) (version_reasoning v)
         = map threshold_reason (filter (\<lambda>t. t \<le> v) [3.9, 3.8, 3.7, 3.6, 3.5])" for v
    by (simp add: version_reasoning_def match_reason_def threshold_reason_def)
  with r show ?thesis by simp
qed

text \<open>For a script with an f-string: the f-string line, then the type-hint line.\<close>

theorem reasoning_descending_witness:
  "predict_python_environment project_fstring ''proj'' False = Inr (env_fstring, [])
   \<and> filter (\<lambda>s. s \<noteq> match_reason) (python_version_reasoning env_fstring)
       = [''F-strings detected (Python 3.6+)'', ''Type hints detected (Python 3.5+)'']"
proof -
  have run: "predict_python_environment project_fstring ''proj'' False = Inr (env_fstring, [])"
    by code_simp
  from reasoning_descending [OF run] run show ?thesis
    by (simp add: env_fstring_def threshold_reason_def)
qed

text \<open>
  C3 as stated fails at that script: the recommended version is 3.6 and the reasoning is
  the match line, the f-string line and the type-hint line, in this order, not the
  type-hint line followed by the f-string line.
\<close>

theorem reasoning_ascending_counterexample:
  "outcome (predict_python_environment project_fstring ''proj'' False) = Inr env_fstring
   \<and> recommended_python_version env_fstring = 3.6
   \<and> python_version_reasoning env_fstring
       = [''Match statements detected (Python 3.10+)'',
          ''F-strings detected (Python 3.6+)'',
          ''Type hints detected (Python 3.5+)'']
   \<and> python_version_reasoning env_fstring
       \<noteq> [''Type hints detected (Python 3.5+)'', ''F-strings detected (Python 3.6+)'']"
proof -
  have "predict_python_environment project_fstring ''proj'' False = Inr (env_fstring, [])"
    by code_simp
  then show ?thesis
    by (simp add: outcome_def env_fstring_def)
qed

subsection \<open>The import sets are finite\<close>

lemma finite_fold_insert:
  "finite S \<Longrightarrow> finite (fold (\<lambda>name acc. insert (f name) acc) names S)"
  by (induction names arbitrary: S) auto

lemma finite_add_import_names: "finite S \<Longrightarrow> finite (add_import_names nd S)"
  by (auto simp: add_import_names_def finite_fold_insert split: node.splits option.splits)

lemma finite_fold_add_import_names: "finite S \<Longrightarrow> finite (fold add_import_names nodes S)"
  by (induction nodes arbitrary: S) (auto simp: finite_add_import_names)

lemma finite_walk_imports: "finite (walk_imports nodes)"
  by (simp add: walk_imports_def finite_fold_add_import_names)

lemma finite_file_imports:
  "file_imports rt p = Some (Inr (imports, out)) \<Longrightarrow> finite imports"
  by (auto simp: file_imports_def analyze_imports_def analyze_notebook_imports_def Let_def
                 finite_walk_imports
           split: if_splits sum.splits)

lemma finite_unit_imports: "finite (unit_imports rt p)"
  by (auto simp: unit_imports_def finite_file_imports split: option.splits sum.splits)

lemma finite_project_imports: "finite (project_imports rt paths)"
  by (simp add: project_imports_def finite_unit_imports)

lemma project_imports_Cons:
  "project_imports rt (p # ps) = unit_imports rt p \<union> project_imports rt ps"
  by (simp add: project_imports_def)

lemma project_imports_Nil: "project_imports rt [] = {}"
  by (simp add: project_imports_def)

subsection \<open>What the dependency loop computes\<close>

lemma std_names_Un: "std_names rt (A \<union> B) = std_names rt A \<union> std_names rt B"
  by (auto simp: std_names_def)

lemma third_party_names_Un:
  "third_party_names rt inst (A \<union> B) = third_party_names rt inst A \<union> third_party_names rt inst B"
  by (auto simp: third_party_names_def)

lemma unknown_names_Un:
  "unknown_names rt inst (A \<union> B) = unknown_names rt inst A \<union> unknown_names rt inst B"
  by (auto simp: unknown_names_def)

lemma classify_import_sets:
  assumes "classify_import rt inst n deps = Inr deps'"
  shows "standard_lib_set deps' = standard_lib_set deps \<union> std_names rt {n}
       \<and> third_party_set deps' =
           third_party_set deps \<union> third_party_entry rt inst ` third_party_names rt inst {n}
       \<and> unknown_set deps' = unknown_set deps \<union> unknown_names rt inst {n}"
  using assms
  by (auto simp: classify_import_def Let_def std_names_def third_party_names_def
                 unknown_names_def third_party_entry_def
           split: sum.splits bool.splits option.splits if_splits)

lemma classify_imports_sets:
  "classify_imports rt inst ns deps = Inr deps' \<Longrightarrow>
     standard_lib_set deps' = standard_lib_set deps \<union> std_names rt (set ns)
   \<and> third_party_set deps' =
       third_party_set deps \<union> third_party_entry rt inst ` third_party_names rt inst (set ns)
   \<and> unknown_set deps' = unknown_set deps \<union> unknown_names rt inst (set ns)"
proof (induction ns arbitrary: deps)
  case Nil
  then show ?case
    by (simp add: std_names_def third_party_names_def unknown_names_def)
next
  case (Cons n ns)
  from Cons.prems obtain mid where
    one: "classify_import rt inst n deps = Inr mid" and
    rest: "classify_imports rt inst ns mid = Inr deps'"
    by (auto split: sum.splits)
  have split_set: "set (n # ns) = {n} \<union> set ns"
    by simp
  from classify_import_sets [OF one] Cons.IH [OF rest] show ?case
    unfolding split_set std_names_Un third_party_names_Un unknown_names_Un image_Un
    by (simp add: Un_assoc)
qed

lemma scan_imports_sets:
  "scan_imports rt inst ps acc = Inr (deps', out') \<Longrightarrow>
     standard_lib_set deps' = standard_lib_set (fst acc) \<union> std_names rt (project_imports rt ps)
   \<and> third_party_set deps' =
       third_party_set (fst acc)
       \<union> third_party_entry rt inst ` third_party_names rt inst (project_imports rt ps)
   \<and> unknown_set deps' = unknown_set (fst acc) \<union> unknown_names rt inst (project_imports rt ps)"
proof (induction ps arbitrary: acc)
  case Nil
  then show ?case
    by (auto simp: project_imports_Nil std_names_def third_party_names_def unknown_names_def)
next
  case (Cons p ps)
  show ?case
  proof (cases "file_imports rt p")
    case None
    then have "unit_imports rt p = {}"
      by (simp add: unit_imports_def)
    moreover from None Cons.prems have "scan_imports rt inst ps acc = Inr (deps', out')"
      by simp
    ultimately show ?thesis
      using Cons.IH by (simp add: project_imports_Cons)
  next
    case (Some r)
    with Cons.prems obtain imps out mid where
      r: "r = Inr (imps, out)" and
      cl: "classify_imports rt inst (sorted_list_of_set imps) (fst acc) = Inr mid" and
      rest: "scan_imports rt inst ps (mid, snd acc @ out) = Inr (deps', out')"
      by (auto split: sum.splits prod.splits)
    from Some r have fin: "finite imps"
      by (simp add: finite_file_imports)
    from Some r have ui: "unit_imports rt p = imps"
      by (simp add: unit_imports_def)
    from classify_imports_sets [OF cl] fin Cons.IH [OF rest] show ?thesis
      unfolding project_imports_Cons ui std_names_Un third_party_names_Un unknown_names_Un image_Un
      by (simp add: Un_assoc)
  qed
qed

lemma finite_std_names: "finite names \<Longrightarrow> finite (std_names rt names)"
  by (simp add: std_names_def)

lemma finite_third_party_names: "finite names \<Longrightarrow> finite (third_party_names rt inst names)"
  by (simp add: third_party_names_def)

lemma finite_unknown_names: "finite names \<Longrightarrow> finite (unknown_names rt inst names)"
  by (simp add: unknown_names_def)

lemma detect_registry:
  "detect_project_dependencies rt d = Inr (r, out) \<Longrightarrow> \<exists>inst. installed_packages rt = Inr inst"
  by (auto simp: detect_project_dependencies_def Let_def split: sum.splits)

lemma report_sets:
  assumes "detect_project_dependencies rt d = Inr (r, out)" and "rglob rt d = Inr paths"
    and "installed_packages rt = Inr inst"
  shows "set (standard_lib r) = std_names rt (project_imports rt paths)
       \<and> set (third_party r) =
           third_party_entry rt inst ` third_party_names rt inst (project_imports rt paths)
       \<and> set (unknown r) = unknown_names rt inst (project_imports rt paths)"
proof -
  from assms obtain deps where
    scan: "scan_imports rt inst paths
             (\<lparr>third_party_set = {}, standard_lib_set = {}, unknown_set = {}\<rparr>, [])
           = Inr (deps, out)" and
    r: "r = \<lparr>third_party = sorted_list_of_set (third_party_set deps),
             standard_lib = sorted_list_of_set (standard_lib_set deps),
             unknown = sorted_list_of_set (unknown_set deps)\<rparr>"
    by (auto simp: detect_project_dependencies_def Let_def split: sum.splits prod.splits)
  have fin: "finite (project_imports rt paths)"
    by (rule finite_project_imports)
  from scan_imports_sets [OF scan] r fin show ?thesis
    by (simp add: finite_std_names finite_third_party_names finite_unknown_names)
qed






lemma is_standard_library_True:
  "is_standard_library rt n = Inr True \<longleftrightarrow>
     n \<in> stdlib_module_names rt
     \<or> (\<exists>spec. find_spec rt n = Inr (Some spec) \<and> \<not> third_party_location spec)"
  by (auto simp: is_standard_library_def third_party_location_def Let_def
           split: sum.splits option.splits)

lemma is_standard_library_False:
  "is_standard_library rt n = Inr False \<longleftrightarrow>
     n \<notin> stdlib_module_names rt
     \<and> (find_spec rt n = Inr None
        \<or> (\<exists>spec. find_spec rt n = Inr (Some spec) \<and> third_party_location spec))"
  by (auto simp: is_standard_library_def third_party_location_def Let_def
           split: sum.splits option.splits)

subsection \<open>The three partitions\<close>


text \<open>
  C2, as the code has it. A name in the standard-module set is standard library; so is a
  name that resolves to a location whose text contains neither \<open>site-packages\<close> nor
  \<open>dist-packages\<close>. Every other name, whether it resolves to a location that contains one
  of the two or does not resolve at all, is looked up under \<open>name.lower()\<close> in the registry:
  found there, it is reported as third party with \<open>==\<close> and the installed version; not
  found, it is reported as unknown.
\<close>

theorem classification_sequence:
  assumes run: "detect_project_dependencies rt d = Inr (r, out)"
    and walk: "rglob rt d = Inr paths"
    and reg: "installed_packages rt = Inr installed"
    and n: "n \<in> project_imports rt paths"
  shows "(n \<in> stdlib_module_names rt \<longrightarrow> n \<in> set (standard_lib r))
       \<and> (n \<notin> stdlib_module_names rt \<and> find_spec rt n = Inr (Some spec)
            \<and> \<not> third_party_location spec
          \<longrightarrow> n \<in> set (standard_lib r))
       \<and> (n \<notin> stdlib_module_names rt
            \<and> (find_spec rt n = Inr None
               \<or> find_spec rt n = Inr (Some spec) \<and> third_party_location spec)
          \<longrightarrow> (case installed (str_lower rt n) of
                 Some v \<Rightarrow> n @ ''=='' @ v \<in> set (third_party r)
                           \<and> n \<notin> set (standard_lib r) \<and> n \<notin> set (unknown r)
               | None \<Rightarrow> n \<in> set (unknown r) \<and> n \<notin> set (standard_lib r)))"
proof -
  let ?all = "project_imports rt paths"
  note sets = report_sets [OF run walk reg]
  have std: "set (standard_lib r) = std_names rt ?all"
    and tp: "set (third_party r)
               = third_party_entry rt installed ` third_party_names rt installed ?all"
    and unk: "set (unknown r) = unknown_names rt installed ?all"
    using sets by simp_all
  have a: "n \<in> set (standard_lib r)" if "n \<in> stdlib_module_names rt"
    using that n by (simp add: std std_names_def is_standard_library_True)
  have b: "n \<in> set (standard_lib r)"
    if "n \<notin> stdlib_module_names rt \<and> find_spec rt n = Inr (Some spec)
            \<and> \<not> third_party_location spec"
    using that n by (simp add: std std_names_def is_standard_library_True)
  have c: "(case installed (str_lower rt n) of
                 Some v \<Rightarrow> n @ ''=='' @ v \<in> set (third_party r)
                           \<and> n \<notin> set (standard_lib r) \<and> n \<notin> set (unknown r)
               | None \<Rightarrow> n \<in> set (unknown r) \<and> n \<notin> set (standard_lib r))"
    if h: "n \<notin> stdlib_module_names rt
            \<and> (find_spec rt n = Inr None
               \<or> find_spec rt n = Inr (Some spec) \<and> third_party_location spec)"
  proof -
    from h have f: "is_standard_library rt n = Inr False"
      by (auto simp: is_standard_library_False)
    show ?thesis
    proof (cases "installed (str_lower rt n)")
      case None
      with f n show ?thesis
        by (simp add: std unk std_names_def unknown_names_def)
    next
      case (Some v)
      with f n have "n \<in> third_party_names rt installed ?all"
        by (simp add: third_party_names_def)
      then have "third_party_entry rt installed n \<in> set (third_party r)"
        unfolding tp by (rule imageI)
      with Some f n show ?thesis
        by (simp add: std unk std_names_def unknown_names_def third_party_entry_def)
    qed
  qed
  from a b c show ?thesis by blast
qed

subsection \<open>A unit that contributes nothing can be left out\<close>

lemma outcome_simps [simp]:
  "outcome (Inl e) = Inl e" "outcome (Inr (x, out)) = Inr x"
  by (simp_all add: outcome_def)





text \<open>Only the walk of a runtime changes with \<open>with_listing\<close>.\<close>

lemma with_listing_fields [simp]:
  "read_text (with_listing rt l) = read_text rt"
  "ast_parse (with_listing rt l) = ast_parse rt"
  "json_loads (with_listing rt l) = json_loads rt"
  "has_Match (with_listing rt l) = has_Match rt"
  "find_spec (with_listing rt l) = find_spec rt"
  "stdlib_module_names (with_listing rt l) = stdlib_module_names rt"
  "distributions (with_listing rt l) = distributions rt"
  "str_lower (with_listing rt l) = str_lower rt"
  "rglob (with_listing rt l) d = Inr l"
  by (simp_all add: with_listing_def)

lemma with_listing_combined_code [simp]:
  "combined_code (with_listing rt l) p = combined_code rt p"
  by (simp add: combined_code_def cong: sum.case_cong)

lemma with_listing_file_imports [simp]:
  "file_imports (with_listing rt l) p = file_imports rt p"
  by (simp add: file_imports_def analyze_imports_def analyze_notebook_imports_def
           cong: sum.case_cong)

lemma with_listing_file_versions [simp]:
  "file_versions (with_listing rt l) p = file_versions rt p"
  by (simp add: file_versions_def analyze_python_version_def
                analyze_python_version_notebook_def
           cong: sum.case_cong)

lemma with_listing_add_distributions [simp]:
  "add_distributions (with_listing rt l) dists m = add_distributions rt dists m"
  by (induction dists arbitrary: m) (auto split: option.splits)

lemma with_listing_installed [simp]:
  "installed_packages (with_listing rt l) = installed_packages rt"
  by (simp add: installed_packages_def)

lemma with_listing_classify_import [simp]:
  "classify_import (with_listing rt l) inst n deps = classify_import rt inst n deps"
  by (simp add: classify_import_def is_standard_library_def)

lemma with_listing_classify_imports [simp]:
  "classify_imports (with_listing rt l) inst ns deps = classify_imports rt inst ns deps"
  by (induction ns arbitrary: deps) (auto split: sum.splits)

lemma with_listing_scan_imports [simp]:
  "scan_imports (with_listing rt l) inst ps acc = scan_imports rt inst ps acc"
  by (induction ps arbitrary: acc) (auto split: option.splits sum.splits prod.splits)

lemma with_listing_scan_versions [simp]:
  "scan_versions (with_listing rt l) ps acc = scan_versions rt ps acc"
  by (induction ps arbitrary: acc) (auto split: option.splits sum.splits prod.splits)












subsection \<open>Units that fail\<close>








text \<open>
  The four cases at one script: \<open>os\<close> is in the standard-module set, \<open>mylocal\<close>
  resolves into the project, \<open>pillow\<close> does not resolve and is installed, \<open>yaml\<close>
  resolves into \<open>dist-packages\<close> and has no registry entry under its name.
\<close>

theorem classification_sequence_witness:
  "detect_project_dependencies project_mixed ''proj''
     = Inr (\<lparr>third_party = [''pillow==10.0.0'', ''requests==2.31.0''],
             standard_lib = [''mylocal'', ''os''],
             unknown = [''yaml'']\<rparr>, [])
   \<and> ''os'' \<in> stdlib_module_names project_mixed
   \<and> ''os'' \<in> set [''mylocal'', ''os'']
   \<and> find_spec project_mixed ''mylocal''
       = Inr (Some \<lparr>origin = Some ''/home/user/proj/mylocal/__init__.py''\<rparr>)
   \<and> ''mylocal'' \<in> set [''mylocal'', ''os'']
   \<and> find_spec project_mixed ''pillow'' = Inr None
   \<and> installed_version project_mixed ''pillow'' = Inr (Some ''10.0.0'')
   \<and> ''pillow==10.0.0'' \<in> set [''pillow==10.0.0'', ''requests==2.31.0'']
   \<and> find_spec project_mixed ''yaml''
       = Inr (Some \<lparr>origin = Some ''/usr/lib/python3/dist-packages/yaml/__init__.py''\<rparr>)
   \<and> installed_version project_mixed ''yaml'' = Inr None
   \<and> ''yaml'' \<in> set [''yaml'']"
proof -
  let ?local = "\<lparr>origin = Some ''/home/user/proj/mylocal/__init__.py''\<rparr>"
  let ?yaml = "\<lparr>origin = Some ''/usr/lib/python3/dist-packages/yaml/__init__.py''\<rparr>"
  have run: "detect_project_dependencies project_mixed ''proj''
     = Inr (\<lparr>third_party = [''pillow==10.0.0'', ''requests==2.31.0''],
             standard_lib = [''mylocal'', ''os''],
             unknown = [''yaml'']\<rparr>, [])"
    by code_simp
  have walk: "rglob project_mixed ''proj'' = Inr [''proj/app.py'']"
    by code_simp
  have names: "project_imports project_mixed [''proj/app.py'']
       = {''os'', ''mylocal'', ''pillow'', ''yaml'', ''requests''}"
    by code_simp
  from detect_registry [OF run] obtain inst where
    reg: "installed_packages project_mixed = Inr inst" ..
  have os: "''os'' \<in> stdlib_module_names project_mixed"
    by code_simp
  have mylocal: "''mylocal'' \<notin> stdlib_module_names project_mixed
      \<and> find_spec project_mixed ''mylocal'' = Inr (Some ?local)
      \<and> \<not> third_party_location ?local"
    by code_simp
  have pillow: "''pillow'' \<notin> stdlib_module_names project_mixed
      \<and> find_spec project_mixed ''pillow'' = Inr None
      \<and> installed_version project_mixed ''pillow'' = Inr (Some ''10.0.0'')"
    by code_simp
  have yaml: "''yaml'' \<notin> stdlib_module_names project_mixed
      \<and> find_spec project_mixed ''yaml'' = Inr (Some ?yaml)
      \<and> third_party_location ?yaml
      \<and> installed_version project_mixed ''yaml'' = Inr None"
    by code_simp
  from pillow reg have pillow_reg: "inst (str_lower project_mixed ''pillow'') = Some ''10.0.0''"
    by (simp add: installed_version_def)
  from yaml reg have yaml_reg: "inst (str_lower project_mixed ''yaml'') = None"
    by (simp add: installed_version_def)
  have "''os'' \<in> project_imports project_mixed [''proj/app.py'']"
    by (simp add: names)
  note t1 = classification_sequence [OF run walk reg this, of ?local]
  have "''mylocal'' \<in> project_imports project_mixed [''proj/app.py'']"
    by (simp add: names)
  note t2 = classification_sequence [OF run walk reg this, of ?local]
  have "''pillow'' \<in> project_imports project_mixed [''proj/app.py'']"
    by (simp add: names)
  note t3 = classification_sequence [OF run walk reg this, of ?local]
  have "''yaml'' \<in> project_imports project_mixed [''proj/app.py'']"
    by (simp add: names)
  note t4 = classification_sequence [OF run walk reg this, of ?yaml]
  from t1 t2 t3 t4 run os mylocal pillow yaml pillow_reg yaml_reg show ?thesis
    by simp
qed

text \<open>
  C2 as stated fails at a script with \<open>import pillow\<close>, \<open>import yaml\<close> and
  \<open>import tool\<close>: \<open>pillow\<close> does not resolve and is reported as third party, not
  unknown, because the registry has it; \<open>yaml\<close> resolves into \<open>dist-packages\<close> and is
  reported as unknown, not as third party without a version, because the registry has no
  \<open>yaml\<close>; \<open>tool\<close> resolves to a file under the directory \<open>my-site-packages-tools\<close>,
  which has no path segment \<open>site-packages\<close> but contains the text, and is reported as
  unknown, not as standard library.
\<close>

theorem unresolved_name_counterexample:
  "''pillow'' \<notin> stdlib_module_names project_packages
   \<and> find_spec project_packages ''pillow'' = Inr None
   \<and> installed_version project_packages ''pillow'' = Inr (Some ''10.0.0'')
   \<and> ''yaml'' \<notin> stdlib_module_names project_packages
   \<and> find_spec project_packages ''yaml''
       = Inr (Some \<lparr>origin = Some ''/usr/lib/python3/dist-packages/yaml/__init__.py''\<rparr>)
   \<and> installed_version project_packages ''yaml'' = Inr None
   \<and> ''tool'' \<notin> stdlib_module_names project_packages
   \<and> find_spec project_packages ''tool''
       = Inr (Some \<lparr>origin = Some ''/home/user/my-site-packages-tools/tool.py''\<rparr>)
   \<and> installed_version project_packages ''tool'' = Inr None
   \<and> detect_project_dependencies project_packages ''proj''
       = Inr (\<lparr>third_party = [''pillow==10.0.0''],
               standard_lib = [''os''],
               unknown = [''tool'', ''yaml'']\<rparr>, [])"
  by code_simp





end
